theory Spec2Isabelle
  imports
    Complex_Main
    "HOL-Library.Char_ord"
    "HOL-Library.List_Lexorder"
    "HOL-Library.Multiset"
    "HOL-Library.Word"
begin

section \<open>Text\<close>

text \<open>
  The program is \<^verbatim>\<open>app.py\<close>. Text is a list of characters with code points
  U+0000 to U+00FF (Isabelle's \<open>char\<close>); Python compares strings code point by code
  point, which is the lexicographic order of \<open>HOL-Library.List_Lexorder\<close> over
  \<open>HOL-Library.Char_ord\<close>. Files hold bytes.
\<close>

type_synonym byte = "8 word"
type_synonym path = string

definition code :: "char \<Rightarrow> nat" where
  "code c = of_char c"

text \<open>\<^verbatim>\<open>str.isspace\<close>, which is also the class \<^verbatim>\<open>\s\<close> of \<^verbatim>\<open>re\<close>.\<close>

definition isspace :: "char \<Rightarrow> bool" where
  "isspace c = (let n = code c in (9 \<le> n \<and> n \<le> 13) \<or> (28 \<le> n \<and> n \<le> 32) \<or> n = 133 \<or> n = 160)"

text \<open>The class \<^verbatim>\<open>\d\<close>.\<close>

definition isdecimal :: "char \<Rightarrow> bool" where
  "isdecimal c = (let n = code c in 48 \<le> n \<and> n \<le> 57)"

text \<open>The class \<^verbatim>\<open>\w\<close>: alphanumeric characters and the underscore.\<close>

definition isword :: "char \<Rightarrow> bool" where
  "isword c = (let n = code c in
     (48 \<le> n \<and> n \<le> 57) \<or> (65 \<le> n \<and> n \<le> 90) \<or> n = 95 \<or> (97 \<le> n \<and> n \<le> 122) \<or>
     n = 170 \<or> n = 178 \<or> n = 179 \<or> n = 181 \<or> n = 185 \<or> n = 186 \<or> (188 \<le> n \<and> n \<le> 190) \<or>
     (192 \<le> n \<and> n \<le> 214) \<or> (216 \<le> n \<and> n \<le> 246) \<or> (248 \<le> n \<and> n \<le> 255))"

text \<open>\<^verbatim>\<open>s.split(sep)\<close> for a separator of one character.\<close>

fun split :: "char \<Rightarrow> string \<Rightarrow> string list" where
  "split sep [] = [[]]"
| "split sep (c # cs) =
     (if c = sep then [] # split sep cs
      else (case split sep cs of [] \<Rightarrow> [[c]] | p # ps \<Rightarrow> (c # p) # ps))"

text \<open>\<^verbatim>\<open>s.strip()\<close>.\<close>

definition strip :: "string \<Rightarrow> string" where
  "strip s = rev (dropWhile isspace (rev (dropWhile isspace s)))"

text \<open>\<^verbatim>\<open>os.path.basename\<close>: what follows the last slash.\<close>

definition basename :: "path \<Rightarrow> string" where
  "basename p = last (split (CHR ''/'') p)"

section \<open>Regular expressions\<close>

text \<open>
  The patterns of the program use literals, greedy repetitions of one character class,
  capturing groups, one alternation and one optional group. \<^verbatim>\<open>re\<close> matches by
  backtracking: a greedy repetition tries the longest run first, an optional group is tried
  before it is skipped, alternatives from left to right. \<open>matches\<close> lists the ways a
  pattern matches at the start of the input in that order, so the match \<^verbatim>\<open>re\<close>
  reports is the head of the list.
\<close>

datatype cclass = Digit | Word | Space | NonSpace | Dot | NotEol | Only char

fun in_class :: "cclass \<Rightarrow> char \<Rightarrow> bool" where
  "in_class Digit c = isdecimal c"
| "in_class Word c = isword c"
| "in_class Space c = isspace c"
| "in_class NonSpace c = (\<not> isspace c)"
| "in_class Dot c = (c \<noteq> CHR 0x0A)"
| "in_class NotEol c = (c \<noteq> CHR 0x0A \<and> c \<noteq> CHR 0x0D)"
| "in_class (Only d) c = (c = d)"

datatype regex =
    Chars string
  | Rep cclass nat "nat option"
  | Seq regex regex
  | Alt regex regex
  | Group nat regex
  | Opt regex

type_synonym groups = "(nat \<times> string) list"

definition greedy :: "cclass \<Rightarrow> nat \<Rightarrow> nat option \<Rightarrow> string \<Rightarrow> string list" where
  "greedy cls lo hi s =
     (let run = length (takeWhile (in_class cls) s);
          most = (case hi of None \<Rightarrow> run | Some h \<Rightarrow> min h run)
      in if most < lo then [] else map (\<lambda>k. drop k s) (rev [lo ..< Suc most]))"

fun matches :: "regex \<Rightarrow> string \<times> groups \<Rightarrow> (string \<times> groups) list" where
  "matches (Chars lit) (s, g) = (if take (length lit) s = lit then [(drop (length lit) s, g)] else [])"
| "matches (Rep cls lo hi) (s, g) = map (\<lambda>r. (r, g)) (greedy cls lo hi s)"
| "matches (Seq a b) st = concat (map (matches b) (matches a st))"
| "matches (Alt a b) st = matches a st @ matches b st"
| "matches (Group n r) (s, g) =
     map (\<lambda>(s', g'). (s', (n, take (length s - length s') s) # g')) (matches r (s, g))"
| "matches (Opt r) st = matches r st @ [st]"

definition match_at :: "regex \<Rightarrow> string \<Rightarrow> (string \<times> groups) option" where
  "match_at r s = (case matches r (s, []) of [] \<Rightarrow> None | m # _ \<Rightarrow> Some m)"

text \<open>\<^verbatim>\<open>m.group(i)\<close>; a group that took no part in the match reads as the empty string,
  as in the tuples of \<^verbatim>\<open>re.findall\<close>.\<close>

definition group :: "groups \<Rightarrow> nat \<Rightarrow> string" where
  "group g i = (case map_of g i of None \<Rightarrow> [] | Some t \<Rightarrow> t)"

text \<open>\<^verbatim>\<open>re.search\<close>: the first position at which the pattern matches.\<close>

fun search :: "regex \<Rightarrow> string \<Rightarrow> groups option" where
  "search r [] = map_option snd (match_at r [])"
| "search r (c # cs) =
     (case match_at r (c # cs) of Some m \<Rightarrow> Some (snd m) | None \<Rightarrow> search r cs)"

text \<open>
  \<^verbatim>\<open>re.findall\<close> for a pattern with \<open>n\<close> groups: the tuples of the successive
  matches, each search starting where the last match ended. Every pattern of the program
  contains literal text, so no match is empty; the branch for a match that consumes nothing
  moves on by one character and keeps the function total.
\<close>

fun findall :: "regex \<Rightarrow> nat \<Rightarrow> string \<Rightarrow> string list list" where
  "findall r n s =
     (case match_at r s of
        None \<Rightarrow> (case s of [] \<Rightarrow> [] | _ # t \<Rightarrow> findall r n t)
      | Some (s', g) \<Rightarrow>
          map (group g) [1 ..< Suc n] #
          (if length s' < length s then findall r n s'
           else (case s of [] \<Rightarrow> [] | _ # t \<Rightarrow> findall r n t)))"

fun seqs :: "regex list \<Rightarrow> regex" where
  "seqs [] = Chars []"
| "seqs [r] = r"
| "seqs (r # rs) = Seq r (seqs rs)"

abbreviation many0 :: "cclass \<Rightarrow> regex" where "many0 c \<equiv> Rep c 0 None"
abbreviation many1 :: "cclass \<Rightarrow> regex" where "many1 c \<equiv> Rep c 1 None"
abbreviation exactly :: "nat \<Rightarrow> cclass \<Rightarrow> regex" where "exactly k c \<equiv> Rep c k (Some k)"

text \<open>The event pattern of \<^verbatim>\<open>process_html_files\<close>, with nine groups.\<close>

definition html_pattern1 :: regex where
  \<open>html_pattern1 = seqs
     [Chars ''<tr><td>'', Group 1 (many1 Digit), Chars '': <font color="#'',
      Alt (Chars ''3366FF'') (Alt (Chars ''606060'') (Chars ''009900'')), Chars ''">'',
      Group 2 (seqs [exactly 2 Digit, Chars ''.'', exactly 2 Digit, Chars ''.'', exactly 2 Digit]),
      many0 Space,
      Group 3 (seqs [exactly 2 Digit, Chars '':'', exactly 2 Digit, Chars '':'', exactly 2 Digit]),
      Chars '':'', many0 Space,
      Group 4 (many1 NonSpace), many0 Space,
      Group 5 (many1 NonSpace), many0 Space,
      Group 6 (many1 NonSpace), many0 Space, Chars '','', many0 Space,
      Group 7 (many1 NonSpace), many0 Space, Chars '','', many0 Space,
      Group 8 (many1 Digit), Chars ''<br>'', many0 Space, many1 (Only CHR ''.''),
      Group 9 (many1 NonSpace)]\<close>

text \<open>The patterns for the device address and the system name.\<close>

definition ip_pattern :: regex where
  "ip_pattern = seqs
     [Chars ''IP='',
      Group 1 (seqs [many1 Digit, Chars ''.'', many1 Digit, Chars ''.'', many1 Digit, Chars ''.'',
                     many1 Digit])]"

definition system_name_pattern :: regex where
  "system_name_pattern = seqs [Chars ''System Name:'', many0 Space, Group 1 (many0 NotEol)]"

text \<open>The event pattern of \<^verbatim>\<open>process_log_files\<close>, with eight groups.\<close>

definition log_pattern1 :: regex where
  "log_pattern1 = seqs
     [many0 (Only CHR ''*''), Group 1 (Rep Word 2 (Some 3)), many1 Space,
      Group 2 (Rep Digit 1 (Some 2)), Chars '' '',
      Group 3 (seqs [exactly 2 Digit, Chars '':'', exactly 2 Digit, Chars '':'', exactly 2 Digit,
                     Chars ''.'', exactly 3 Digit, many0 Space, many0 NonSpace]),
      Chars '': %'', Group 4 (many1 NonSpace), Chars ''-'', Group 5 (exactly 1 Digit), Chars ''-'',
      Group 6 (many1 Word), Chars '': '', Group 7 (many1 Dot), many0 Space,
      Opt (seqs [many0 Space, Chars ''-Traceback='', Group 8 (many1 Dot)])]"

section \<open>Values, the runtime and the state\<close>

text \<open>What \<^verbatim>\<open>json.loads\<close> returns: a dict keeps its keys in insertion order.\<close>

datatype json =
    JNull
  | JBool bool
  | JInt int
  | JFloat real
  | JStr string
  | JArr "json list"
  | JObj "(string \<times> json) list"

type_synonym dict = "(string \<times> json) list"

text \<open>\<^verbatim>\<open>d[k] = v\<close>: an existing key keeps its place, a new key goes last.\<close>

fun setitem :: "string \<Rightarrow> json \<Rightarrow> dict \<Rightarrow> dict" where
  "setitem k v [] = [(k, v)]"
| "setitem k v (p # ps) = (if fst p = k then (k, v) # ps else p # setitem k v ps)"

text \<open>\<^verbatim>\<open>d.pop(k, default)\<close>: the value and the dict without the key.\<close>

definition pop :: "string \<Rightarrow> json \<Rightarrow> dict \<Rightarrow> json \<times> dict" where
  "pop k dflt d =
     (case map_of d k of None \<Rightarrow> (dflt, d) | Some v \<Rightarrow> (v, filter (\<lambda>p. fst p \<noteq> k) d))"

text \<open>\<^verbatim>\<open>item.update(data)\<close>: the pairs of \<open>data\<close> are stored into \<open>item\<close> in order.\<close>

definition update :: "dict \<Rightarrow> dict \<Rightarrow> dict" where
  "update item data = fold (\<lambda>p. setitem (fst p) (snd p)) data item"

datatype encoding = UTF_8 | ISO_8859_1 | WINDOWS_1252

datatype error =
    FileNotFoundError | UnicodeDecodeError | TypeError | AttributeError | ValueError | KeyError
  | UnboundLocalError

text \<open>
  What the Python runtime supplies and the program does not define: the codecs other than
  ISO-8859-1 (\<open>None\<close> is a decoding fault), the codec \<^verbatim>\<open>open\<close> uses when no
  encoding is named, \<^verbatim>\<open>json.loads\<close> on a text that starts with a brace (a parse
  that succeeds yields a dict, \<open>None\<close> is \<^verbatim>\<open>JSONDecodeError\<close>), and \<^verbatim>\<open>str\<close> of a
  value.
\<close>

record runtime =
  utf_8 :: "byte list \<Rightarrow> string option"
  windows_1252 :: "byte list \<Rightarrow> string option"
  locale_codec :: "byte list \<Rightarrow> string option"
  loads :: "string \<Rightarrow> dict option"
  str_of :: "json \<Rightarrow> string"

text \<open>ISO-8859-1 maps every byte to the code point of the same number.\<close>

definition iso_8859_1 :: "byte list \<Rightarrow> string option" where
  "iso_8859_1 bs = Some (map (\<lambda>b. char_of (unat b)) bs)"

fun decode :: "runtime \<Rightarrow> encoding \<Rightarrow> byte list \<Rightarrow> string option" where
  "decode rt UTF_8 bs = utf_8 rt bs"
| "decode rt ISO_8859_1 bs = iso_8859_1 bs"
| "decode rt WINDOWS_1252 bs = windows_1252 rt bs"

text \<open>A file opened in text mode turns \<^verbatim>\<open>\r\n\<close> and \<^verbatim>\<open>\r\<close> into \<^verbatim>\<open>\n\<close>.\<close>

fun universal_newlines :: "string \<Rightarrow> string" where
  "universal_newlines [] = []"
| "universal_newlines [c] = (if c = CHR 0x0D then [CHR 0x0A] else [c])"
| "universal_newlines (c # d # ds) =
     (if c = CHR 0x0D \<and> d = CHR 0x0A then CHR 0x0A # universal_newlines ds
      else if c = CHR 0x0D then CHR 0x0A # universal_newlines (d # ds)
      else c # universal_newlines (d # ds))"

definition read_text :: "(byte list \<Rightarrow> string option) \<Rightarrow> byte list \<Rightarrow> string option" where
  "read_text codec bs = map_option universal_newlines (codec bs)"

text \<open>A cell of a worksheet or of the summary.\<close>

datatype cell = S string | I int | V json | NaN

type_synonym sheet = "string \<times> cell list list"

text \<open>
  The state the functions work on: the files in storage, the sheets of the workbook in
  the order of their creation, and the list \<^verbatim>\<open>summary_data\<close>. A worksheet is its title
  and its rows; what \<^verbatim>\<open>openpyxl\<close> does to a row when it stores or renders it (widths,
  fills, filters, the conversion of cell values) is not part of the model.
\<close>

record state =
  files :: "path \<rightharpoonup> byte list"
  wb :: "sheet list"
  summary_data :: "cell list list"

definition create_sheet :: "string \<Rightarrow> state \<Rightarrow> state" where
  "create_sheet title st = st\<lparr>wb := wb st @ [(title, [])]\<rparr>"

text \<open>
  Every function below writes to the worksheet it created last, so \<^verbatim>\<open>ws.append(row)\<close>
  adds the row to the last sheet of the workbook.
\<close>

definition ws_append :: "cell list \<Rightarrow> state \<Rightarrow> state" where
  "ws_append row st =
     (if wb st = [] then st
      else st\<lparr>wb := butlast (wb st) @ [(fst (last (wb st)), snd (last (wb st)) @ [row])]\<rparr>)"

definition ws_rows :: "state \<Rightarrow> cell list list" where
  "ws_rows st = snd (last (wb st))"

definition os_remove :: "path \<Rightarrow> state \<Rightarrow> error + state" where
  "os_remove p st =
     (if files st p = None then Inl FileNotFoundError
      else Inr (st\<lparr>files := (files st)(p := None)\<rparr>))"

section \<open>The reader\<close>

definition default_encodings :: "encoding list" where
  "default_encodings = [UTF_8, ISO_8859_1, WINDOWS_1252]"

text \<open>
  \<^verbatim>\<open>read_file_with_multiple_encodings\<close>. \<^verbatim>\<open>open\<close> raises \<^verbatim>\<open>FileNotFoundError\<close> for a
  missing file, which the loop does not catch. After the loop the source runs
  \<^verbatim>\<open>raise UnicodeDecodeError(msg)\<close>; the constructor takes five arguments, so with one
  argument the statement raises \<^verbatim>\<open>TypeError\<close>.
\<close>

fun read_file_with_multiple_encodings ::
  "runtime \<Rightarrow> (path \<rightharpoonup> byte list) \<Rightarrow> path \<Rightarrow> encoding list \<Rightarrow> error + string" where
  "read_file_with_multiple_encodings rt fs file_path [] = Inl TypeError"
| "read_file_with_multiple_encodings rt fs file_path (encoding # encodings) =
     (case fs file_path of
        None \<Rightarrow> Inl FileNotFoundError
      | Some bs \<Rightarrow>
          (case read_text (decode rt encoding) bs of
             Some content \<Rightarrow> Inr content
           | None \<Rightarrow> read_file_with_multiple_encodings rt fs file_path encodings))"

section \<open>HTML event logs\<close>

definition html_header :: "cell list" where
  "html_header = map S [''IP Device'', ''System Name'', ''Entry ID'', ''Date'', ''Time'',
     ''Error Type'', ''Error Code'', ''TaskName'', ''Filename'', ''Line'', ''Parameter'']"

text \<open>
  \<^verbatim>\<open>df.sort_values(by=...)\<close> orders the rows by the text of one column. Nothing below
  depends on the order it gives to rows with equal keys.
\<close>

definition sort_values :: "nat \<Rightarrow> string list list \<Rightarrow> string list list" where
  "sort_values by df = sort_key (\<lambda>row. row ! by) df"

text \<open>
  The \<^verbatim>\<open>try\<close> block of the loop of \<^verbatim>\<open>process_html_files\<close> with its two handlers,
  which print and go on. The frame has the columns IP Device, System Name and the nine
  groups, so Entry ID is column 2. The variable \<^verbatim>\<open>file_base_name\<close> is never read and
  is left out.
\<close>

definition html_try :: "runtime \<Rightarrow> nat \<Rightarrow> path \<Rightarrow> state \<Rightarrow> state" where
  "html_try rt index file_address st =
     (case read_file_with_multiple_encodings rt (files st) file_address default_encodings of
        Inl e \<Rightarrow> st
      | Inr html_content \<Rightarrow>
          (let ip_device = (case search ip_pattern html_content of
                              Some g \<Rightarrow> group g 1 | None \<Rightarrow> ''Unknown'');
               system_name = (case search system_name_pattern html_content of
                                Some g \<Rightarrow> hd (split (CHR ''<'') (strip (group g 1)))
                              | None \<Rightarrow> ''Unknown'');
               events = findall html_pattern1 9 html_content
           in if events = [] then st
              else
                (let df = map (\<lambda>e. ip_device # system_name # e) events;
                     df_sorted = sort_values 2 df;
                     st1 = fold (\<lambda>r. ws_append (map S r)) df_sorted st
                 in st1\<lparr>summary_data := summary_data st1 @
                      [[I (int index), S (basename file_address), S ip_device, S system_name]]\<rparr>)))"

text \<open>The events of a file, when it can be read.\<close>

definition html_events :: "runtime \<Rightarrow> (path \<rightharpoonup> byte list) \<Rightarrow> path \<Rightarrow> string list list option" where
  "html_events rt fs file_address =
     (case read_file_with_multiple_encodings rt fs file_address default_encodings of
        Inl e \<Rightarrow> None
      | Inr html_content \<Rightarrow> Some (findall html_pattern1 9 html_content))"

text \<open>One round of the loop: the \<^verbatim>\<open>try\<close> block, then \<^verbatim>\<open>finally: os.remove\<close>, whose
  own exception leaves the function.\<close>

definition process_html_file :: "runtime \<Rightarrow> nat \<times> path \<Rightarrow> state \<Rightarrow> error + state" where
  "process_html_file rt ip st = os_remove (snd ip) (html_try rt (fst ip) (snd ip) st)"

fun for_each :: "('a \<Rightarrow> state \<Rightarrow> error + state) \<Rightarrow> 'a list \<Rightarrow> state \<Rightarrow> error + state" where
  "for_each body [] st = Inr st"
| "for_each body (x # xs) st =
     (case body x st of Inl e \<Rightarrow> Inl e | Inr st' \<Rightarrow> for_each body xs st')"

definition process_html_files :: "runtime \<Rightarrow> path list \<Rightarrow> state \<Rightarrow> error + state" where
  "process_html_files rt file_addresses st =
     for_each (process_html_file rt) (enumerate 1 file_addresses)
       (ws_append html_header (create_sheet ''Output_event_log'' st))"

section \<open>Syslog and text files\<close>

definition log_header :: "cell list" where
  "log_header = map S [''System Name'', ''Month'', ''Date'', ''Timestamp'', ''Facility'',
     ''Severity Level'', ''Mnemonic'', ''Message Text'', ''Traceback'']"

text \<open>The system name is the last underscore-separated part of the file name before its
  first dot.\<close>

definition log_system_name :: "path \<Rightarrow> string" where
  "log_system_name file_address = last (split (CHR ''_'') (hd (split (CHR ''.'') (basename file_address))))"

text \<open>The \<^verbatim>\<open>try\<close> block of the loop of \<^verbatim>\<open>process_log_files\<close>. The frame has the columns
  System Name and the eight groups, so Timestamp is column 3.\<close>

definition log_try :: "runtime \<Rightarrow> nat \<Rightarrow> path \<Rightarrow> state \<Rightarrow> state" where
  "log_try rt index file_address st =
     (let system_name = log_system_name file_address in
      case read_file_with_multiple_encodings rt (files st) file_address default_encodings of
        Inl e \<Rightarrow> st
      | Inr txt_content \<Rightarrow>
          (let events = findall log_pattern1 8 txt_content
           in if events = [] then st
              else
                (let df = map (\<lambda>e. system_name # e) events;
                     df_sorted = sort_values 3 df;
                     st1 = fold (\<lambda>r. ws_append (map S r)) df_sorted st
                 in st1\<lparr>summary_data := summary_data st1 @
                      [[I (int index), S (basename file_address), S system_name]]\<rparr>)))"

text \<open>The events of a syslog or text file, when it can be read.\<close>

definition log_events :: "runtime \<Rightarrow> (path \<rightharpoonup> byte list) \<Rightarrow> path \<Rightarrow> string list list option" where
  "log_events rt fs file_address =
     (case read_file_with_multiple_encodings rt fs file_address default_encodings of
        Inl e \<Rightarrow> None
      | Inr txt_content \<Rightarrow> Some (findall log_pattern1 8 txt_content))"

definition process_log_file :: "runtime \<Rightarrow> nat \<times> path \<Rightarrow> state \<Rightarrow> error + state" where
  "process_log_file rt ip st = os_remove (snd ip) (log_try rt (fst ip) (snd ip) st)"

definition process_log_files :: "runtime \<Rightarrow> path list \<Rightarrow> state \<Rightarrow> error + state" where
  "process_log_files rt file_addresses st =
     for_each (process_log_file rt) (enumerate 1 file_addresses)
       (ws_append log_header (create_sheet ''Syslog'' st))"

section \<open>JSON lines\<close>

text \<open>The lines of a text, each with its line feed, as \<^verbatim>\<open>for line in file\<close> yields them.\<close>

fun lines :: "string \<Rightarrow> string list" where
  "lines [] = []"
| "lines (c # cs) =
     (if c = CHR 0x0A then [c] # lines cs
      else (case lines cs of [] \<Rightarrow> [[c]] | l # ls \<Rightarrow> (c # l) # ls))"

text \<open>\<^verbatim>\<open>open(file_path, 'r')\<close> and the iteration over the file: a missing file and bytes
  the codec rejects raise.\<close>

definition open_lines :: "runtime \<Rightarrow> (path \<rightharpoonup> byte list) \<Rightarrow> path \<Rightarrow> error + string list" where
  "open_lines rt fs file_path =
     (case fs file_path of
        None \<Rightarrow> Inl FileNotFoundError
      | Some bs \<Rightarrow>
          (case read_text (locale_codec rt) bs of
             None \<Rightarrow> Inl UnicodeDecodeError
           | Some content \<Rightarrow> Inr (lines content)))"

definition json_pattern :: regex where
  "json_pattern = seqs [Chars ''{'', many0 Dot, Chars ''}'']"

definition info_pattern :: regex where
  "info_pattern = seqs
     [Chars ''INFO - '',
      Group 1 (seqs [exactly 4 Digit, Chars ''-'', exactly 2 Digit, Chars ''-'', exactly 2 Digit,
                     Chars '' '', exactly 2 Digit, Chars '':'', exactly 2 Digit, Chars '':'',
                     exactly 2 Digit])]"

text \<open>\<^verbatim>\<open>line[line.find('{'):]\<close> for a line that holds a brace.\<close>

definition from_brace :: "string \<Rightarrow> string" where
  "from_brace line = dropWhile (\<lambda>c. c \<noteq> CHR ''{'') line"

text \<open>What a \<^verbatim>\<open>for\<close> loop over a value runs through; a value that is no container
  raises \<^verbatim>\<open>TypeError\<close>.\<close>

fun iterate :: "json \<Rightarrow> error + json list" where
  "iterate (JArr xs) = Inr xs"
| "iterate (JObj d) = Inr (map (\<lambda>p. JStr (fst p)) d)"
| "iterate (JStr s) = Inr (map (\<lambda>c. JStr [c]) s)"
| "iterate v = Inl TypeError"

fun truthy :: "json \<Rightarrow> bool" where
  "truthy JNull = False"
| "truthy (JBool b) = b"
| "truthy (JInt i) = (i \<noteq> 0)"
| "truthy (JFloat x) = (x \<noteq> 0)"
| "truthy (JStr s) = (s \<noteq> [])"
| "truthy (JArr xs) = (xs \<noteq> [])"
| "truthy (JObj d) = (d \<noteq> [])"

subsection \<open>Link status\<close>

text \<open>The body of the loop of \<^verbatim>\<open>extract_link_data\<close> over the lines.\<close>

definition link_line :: "runtime \<Rightarrow> string \<Rightarrow> dict list \<Rightarrow> error + dict list" where
  "link_line rt line json_list =
     (if search json_pattern line = None then Inr json_list
      else
        (case match_at info_pattern line of
           None \<Rightarrow> Inr json_list
         | Some m \<Rightarrow>
             (case split (CHR '' '') (group (snd m) 1) of
                [date, time] \<Rightarrow>
                  (case loads rt (from_brace line) of
                     None \<Rightarrow> Inr json_list
                   | Some data \<Rightarrow>
                       Inr (json_list @
                         [setitem ''Time'' (JStr time) (setitem ''Date'' (JStr date) data)]))
              | _ \<Rightarrow> Inl ValueError)))"

fun link_lines :: "runtime \<Rightarrow> string list \<Rightarrow> dict list \<Rightarrow> error + dict list" where
  "link_lines rt [] json_list = Inr json_list"
| "link_lines rt (line # rest) json_list =
     (case link_line rt line json_list of
        Inl e \<Rightarrow> Inl e
      | Inr json_list' \<Rightarrow> link_lines rt rest json_list')"

definition extract_link_data :: "runtime \<Rightarrow> (path \<rightharpoonup> byte list) \<Rightarrow> path \<Rightarrow> error + dict list" where
  "extract_link_data rt fs file_path =
     (case open_lines rt fs file_path of
        Inl e \<Rightarrow> Inl e
      | Inr ls \<Rightarrow> link_lines rt ls [])"

text \<open>\<^verbatim>\<open>for item in items: item.update(data); all_items.append(item)\<close>. Only a dict has
  \<^verbatim>\<open>update\<close>.\<close>

fun link_items :: "json list \<Rightarrow> dict \<Rightarrow> dict list \<Rightarrow> error + dict list" where
  "link_items [] data all_items = Inr all_items"
| "link_items (JObj item # items) data all_items =
     link_items items data (all_items @ [update item data])"
| "link_items (v # items) data all_items = Inl AttributeError"

text \<open>\<^verbatim>\<open>for data in json_data\<close>, with \<^verbatim>\<open>items = data.pop('items', [])\<close>.\<close>

fun link_data :: "dict list \<Rightarrow> dict list \<Rightarrow> error + dict list" where
  "link_data [] all_items = Inr all_items"
| "link_data (data # json_data) all_items =
     (case iterate (fst (pop ''items'' (JArr []) data)) of
        Inl e \<Rightarrow> Inl e
      | Inr items \<Rightarrow>
          (case link_items items (snd (pop ''items'' (JArr []) data)) all_items of
             Inl e \<Rightarrow> Inl e
           | Inr all_items' \<Rightarrow> link_data json_data all_items'))"

text \<open>\<^verbatim>\<open>for file_path in file_paths\<close> of \<^verbatim>\<open>process_link_files\<close>.\<close>

fun link_files ::
  "runtime \<Rightarrow> (path \<rightharpoonup> byte list) \<Rightarrow> path list \<Rightarrow> dict list \<Rightarrow> error + dict list" where
  "link_files rt fs [] all_items = Inr all_items"
| "link_files rt fs (file_path # file_paths) all_items =
     (case extract_link_data rt fs file_path of
        Inl e \<Rightarrow> Inl e
      | Inr json_data \<Rightarrow>
          (case link_data json_data all_items of
             Inl e \<Rightarrow> Inl e
           | Inr all_items' \<Rightarrow> link_files rt fs file_paths all_items'))"

text \<open>\<^verbatim>\<open>pd.DataFrame(all_items).columns\<close>: the keys of the records in the order in which
  they are first seen.\<close>

definition add_keys :: "dict \<Rightarrow> string list \<Rightarrow> string list" where
  "add_keys d cols = fold (\<lambda>p cs. if fst p \<in> set cs then cs else cs @ [fst p]) d cols"

definition columns :: "dict list \<Rightarrow> string list" where
  "columns all_items = fold add_keys all_items []"

definition columns_order :: "string list \<Rightarrow> string list" where
  "columns_order cols =
     [''Date'', ''Time''] @ filter (\<lambda>col. col \<noteq> ''Date'' \<and> col \<noteq> ''Time'') cols"

text \<open>A row of the frame: the value of each column, \<^verbatim>\<open>NaN\<close> where the record has none.\<close>

definition frame_row :: "string list \<Rightarrow> dict \<Rightarrow> cell list" where
  "frame_row cols d = map (\<lambda>col. case map_of d col of None \<Rightarrow> NaN | Some v \<Rightarrow> V v) cols"

text \<open>\<^verbatim>\<open>items_df[columns_order]\<close> raises \<^verbatim>\<open>KeyError\<close> for a column the frame has not.\<close>

definition reorder :: "dict list \<Rightarrow> error + string list \<times> cell list list" where
  "reorder all_items =
     (let cols = columns all_items in
      if ''Date'' \<in> set cols \<and> ''Time'' \<in> set cols
      then Inr (columns_order cols, map (frame_row (columns_order cols)) all_items)
      else Inl KeyError)"

definition process_link_files :: "runtime \<Rightarrow> path list \<Rightarrow> state \<Rightarrow> error + state" where
  "process_link_files rt file_paths st =
     (let st1 = create_sheet ''link_status_jms'' st in
      case link_files rt (files st1) file_paths [] of
        Inl e \<Rightarrow> Inl e
      | Inr all_items \<Rightarrow>
          if all_items = [] then Inr st1
          else
            (case reorder all_items of
               Inl e \<Rightarrow> Inl e
             | Inr items_df \<Rightarrow>
                 (let st2 = ws_append (map S (fst items_df)) st1;
                      st3 = fold ws_append (snd items_df) st2
                  in if file_paths = [] then Inl UnboundLocalError
                     else Inr (st3\<lparr>summary_data := summary_data st3 @
                            [[I (int (length file_paths)), S (basename (last file_paths))]]\<rparr>))))"

subsection \<open>Equipment status\<close>

text \<open>The body of the loop of \<^verbatim>\<open>extract_equipment_data\<close>. The handler catches
  \<^verbatim>\<open>JSONDecodeError\<close> only: a \<^verbatim>\<open>messageSendTime\<close> that is no string has no
  \<^verbatim>\<open>split\<close>, and one that does not split into two parts at \<^verbatim>\<open>T\<close> cannot be
  unpacked.\<close>

definition equipment_line :: "runtime \<Rightarrow> string \<Rightarrow> dict list \<Rightarrow> error + dict list" where
  "equipment_line rt line json_list =
     (if search json_pattern line = None then Inr json_list
      else
        (case loads rt (from_brace line) of
           None \<Rightarrow> Inr json_list
         | Some data \<Rightarrow>
             (case map_of data ''messageSendTime'' of
                None \<Rightarrow> Inr json_list
              | Some (JStr datetime_str) \<Rightarrow>
                  (case split (CHR ''T'') datetime_str of
                     [date, time] \<Rightarrow>
                       Inr (json_list @
                         [setitem ''Time'' (JStr (hd (split (CHR ''.'') (hd (split (CHR ''+'') time)))))
                            (setitem ''Date'' (JStr date) data)])
                   | _ \<Rightarrow> Inl ValueError)
              | Some v \<Rightarrow> Inl AttributeError)))"

fun equipment_lines :: "runtime \<Rightarrow> string list \<Rightarrow> dict list \<Rightarrow> error + dict list" where
  "equipment_lines rt [] json_list = Inr json_list"
| "equipment_lines rt (line # rest) json_list =
     (case equipment_line rt line json_list of
        Inl e \<Rightarrow> Inl e
      | Inr json_list' \<Rightarrow> equipment_lines rt rest json_list')"

definition extract_equipment_data ::
  "runtime \<Rightarrow> (path \<rightharpoonup> byte list) \<Rightarrow> path \<Rightarrow> error + dict list" where
  "extract_equipment_data rt fs file_path =
     (case open_lines rt fs file_path of
        Inl e \<Rightarrow> Inl e
      | Inr ls \<Rightarrow> equipment_lines rt ls [])"

text \<open>One round of \<^verbatim>\<open>flatten_items\<close>: a dict is copied and its \<^verbatim>\<open>equipmentItems\<close>
  turned into text; a list can be copied and searched, but not indexed by a string; no
  other value has \<^verbatim>\<open>copy\<close>.\<close>

fun flatten_item :: "runtime \<Rightarrow> json \<Rightarrow> error + json" where
  "flatten_item rt (JObj item) =
     (case map_of item ''equipmentItems'' of
        None \<Rightarrow> Inr (JObj item)
      | Some v \<Rightarrow> Inr (JObj (setitem ''equipmentItems'' (JStr (str_of rt v)) item)))"
| "flatten_item rt (JArr xs) =
     (if JStr ''equipmentItems'' \<in> set xs then Inl TypeError else Inr (JArr xs))"
| "flatten_item rt v = Inl AttributeError"

fun flatten_items :: "runtime \<Rightarrow> json list \<Rightarrow> error + json list" where
  "flatten_items rt [] = Inr []"
| "flatten_items rt (item # items) =
     (case flatten_item rt item of
        Inl e \<Rightarrow> Inl e
      | Inr flat_item \<Rightarrow>
          (case flatten_items rt items of
             Inl e \<Rightarrow> Inl e
           | Inr flat_items \<Rightarrow> Inr (flat_item # flat_items)))"

text \<open>\<^verbatim>\<open>for data in json_data\<close> of \<^verbatim>\<open>process_equipment_files\<close>; the inner loop over the
  flattened items is that of the link files.\<close>

fun equipment_data :: "runtime \<Rightarrow> dict list \<Rightarrow> dict list \<Rightarrow> error + dict list" where
  "equipment_data rt [] all_items = Inr all_items"
| "equipment_data rt (data # json_data) all_items =
     (if truthy (fst (pop ''items'' (JArr []) data))
      then
        (case iterate (fst (pop ''items'' (JArr []) data)) of
           Inl e \<Rightarrow> Inl e
         | Inr items \<Rightarrow>
             (case flatten_items rt items of
                Inl e \<Rightarrow> Inl e
              | Inr flat_items \<Rightarrow>
                  (case link_items flat_items (snd (pop ''items'' (JArr []) data)) all_items of
                     Inl e \<Rightarrow> Inl e
                   | Inr all_items' \<Rightarrow> equipment_data rt json_data all_items')))
      else equipment_data rt json_data all_items)"

fun equipment_files ::
  "runtime \<Rightarrow> (path \<rightharpoonup> byte list) \<Rightarrow> path list \<Rightarrow> dict list \<Rightarrow> error + dict list" where
  "equipment_files rt fs [] all_items = Inr all_items"
| "equipment_files rt fs (file_path # file_paths) all_items =
     (case extract_equipment_data rt fs file_path of
        Inl e \<Rightarrow> Inl e
      | Inr json_data \<Rightarrow>
          (case equipment_data rt json_data all_items of
             Inl e \<Rightarrow> Inl e
           | Inr all_items' \<Rightarrow> equipment_files rt fs file_paths all_items'))"

text \<open>The largest number of rows of a sheet.\<close>

definition columns_per_sheet :: nat where
  "columns_per_sheet = 1000000"

text \<open>\<^verbatim>\<open>str\<close> of a natural number, for the title of a new sheet.\<close>

fun show_nat :: "nat \<Rightarrow> string" where
  "show_nat n =
     (if n < 10 then [char_of (48 + n)] else show_nat (n div 10) @ [char_of (48 + n mod 10)])"

text \<open>The loop of \<^verbatim>\<open>add_data_to_sheet\<close> over the rows, with its \<^verbatim>\<open>break\<close>; the pair is
  the state and \<^verbatim>\<open>row_count\<close>.\<close>

fun add_rows :: "cell list list \<Rightarrow> state \<times> nat \<Rightarrow> state \<times> nat" where
  "add_rows [] p = p"
| "add_rows (row # rows) p =
     (if columns_per_sheet \<le> snd p then p
      else add_rows rows (ws_append row (fst p), snd p + 1))"

definition add_data_to_sheet :: "string list \<Rightarrow> cell list list \<Rightarrow> state \<times> nat \<Rightarrow> state \<times> nat" where
  "add_data_to_sheet cols df p =
     add_rows df (if snd p = 0 then (ws_append (map S cols) (fst p), snd p) else p)"

text \<open>The start of a round of the \<^verbatim>\<open>while\<close> loop: a full sheet is followed by a new one.\<close>

definition next_sheet :: "state \<times> nat \<Rightarrow> state \<times> nat" where
  "next_sheet p =
     (if columns_per_sheet \<le> snd p
      then (create_sheet (''Sheet'' @ show_nat (length (wb (fst p)) + 1)) (fst p), 0)
      else p)"

definition split_index :: "cell list list \<Rightarrow> state \<times> nat \<Rightarrow> nat" where
  "split_index df p = min (columns_per_sheet - snd (next_sheet p)) (length df)"

function paging :: "string list \<Rightarrow> cell list list \<Rightarrow> state \<times> nat \<Rightarrow> state \<times> nat" where
  "paging cols df p =
     (if df = [] then p
      else paging cols (drop (split_index df p) df)
             (add_data_to_sheet cols (take (split_index df p) df) (next_sheet p)))"
  by pat_completeness auto
termination
  by (relation "measure (\<lambda>(cols, df, p). length df)")
    (auto simp: split_index_def next_sheet_def columns_per_sheet_def)

definition process_equipment_files :: "runtime \<Rightarrow> path list \<Rightarrow> state \<Rightarrow> error + state" where
  "process_equipment_files rt file_paths st =
     (let st1 = create_sheet ''equipment_status'' st in
      case equipment_files rt (files st1) file_paths [] of
        Inl e \<Rightarrow> Inl e
      | Inr all_items \<Rightarrow>
          if all_items = [] then Inr st1
          else
            (case reorder all_items of
               Inl e \<Rightarrow> Inl e
             | Inr items_df \<Rightarrow>
                 (let st2 = fst (paging (fst items_df) (snd items_df) (st1, 0))
                  in if file_paths = [] then Inl UnboundLocalError
                     else Inr (st2\<lparr>summary_data := summary_data st2 @
                            [[I (int (length file_paths)), S (basename (last file_paths))]]\<rparr>))))"

section \<open>Example inputs\<close>

text \<open>
  A runtime for the examples. Their files hold 7-bit text, which every codec of Python
  decodes to the characters with the same numbers; \<open>seven_bit\<close> does so and reports a
  fault on any other byte. \<^verbatim>\<open>json.loads\<close> is tabulated on the payloads of the examples,
  and no example calls \<^verbatim>\<open>str\<close>.
\<close>

definition seven_bit :: "byte list \<Rightarrow> string option" where
  "seven_bit bs =
     (if list_all (\<lambda>b. b < 0x80) bs then Some (map (\<lambda>b. char_of (unat b)) bs) else None)"

definition bytes_of :: "string \<Rightarrow> byte list" where
  "bytes_of s = map (\<lambda>c. word_of_nat (of_char c)) s"

definition link_text :: string where
  \<open>link_text =
     ''INFO - 2024-01-01 10:00:00 {"node":"X","items":[{"a":1,"node":"Y"},{"a":2}]}'' @ [CHR 0x0A]\<close>

definition link_payload :: dict where
  "link_payload =
     [(''node'', JStr ''X''),
      (''items'', JArr [JObj [(''a'', JInt 1), (''node'', JStr ''Y'')], JObj [(''a'', JInt 2)]])]"

definition equipment_text :: string where
  \<open>equipment_text =
     ''{"messageSendTime":"2024-01-01T10:00:00.123+07:00","items":[{"id":1}]}'' @ [CHR 0x0A]\<close>

definition equipment_payload :: dict where
  "equipment_payload =
     [(''messageSendTime'', JStr ''2024-01-01T10:00:00.123+07:00''),
      (''items'', JArr [JObj [(''id'', JInt 1)]])]"

definition untimed_text :: string where
  \<open>untimed_text = ''{"items":[{"id":2}]}'' @ [CHR 0x0A]\<close>

definition untimed_payload :: dict where
  "untimed_payload = [(''items'', JArr [JObj [(''id'', JInt 2)]])]"

definition rt0 :: runtime where
  "rt0 = \<lparr>utf_8 = seven_bit, windows_1252 = seven_bit, locale_codec = seven_bit,
     loads = map_of [(from_brace link_text, link_payload), (equipment_text, equipment_payload),
                     (untimed_text, untimed_payload)],
     str_of = (\<lambda>v. [])\<rparr>"

text \<open>A state with one file and an empty workbook, and what is read off a result: the
  sheets, the summary, and whether the file is still in storage.\<close>

definition storage :: "path \<Rightarrow> string \<Rightarrow> state" where
  "storage p content = \<lparr>files = [p \<mapsto> bytes_of content], wb = [], summary_data = []\<rparr>"

definition outcome :: "path \<Rightarrow> error + state \<Rightarrow> error + sheet list \<times> cell list list \<times> bool" where
  "outcome p r = map_sum id (\<lambda>st. (wb st, summary_data st, files st p \<noteq> None)) r"


definition html_example :: string where
  \<open>html_example =
     ''IP=10.0.0.1'' @ [CHR 0x0A] @ ''System Name: RTR-1'' @ [CHR 0x0A] @
     ''<tr><td>12: <font color="#3366FF">01.02.03 04:05:06: E1 C2 T3 , F4 , 7<br> .P8'' @ [CHR 0x0A] @
     ''<tr><td>3: <font color="#606060">01.02.03 04:05:07: E C T,F,9<br>..Q'' @ [CHR 0x0A]\<close>

definition log_example :: string where
  "log_example =
     ''*Mar  1 00:00:01.123: %SYS-2-MALLOCFAIL: Memory failed -Traceback= 0x1 0x2'' @ [CHR 0x0A]"


text \<open>Every record carries a date and a time.\<close>

definition has_date_time :: "dict \<Rightarrow> bool" where
  "has_date_time d = (''Date'' \<in> fst ` set d \<and> ''Time'' \<in> fst ` set d)"

text \<open>The recursive equations of these functions are unfolded by hand.\<close>

declare paging.simps [simp del] show_nat.simps [simp del] findall.simps [simp del]

section \<open>Properties\<close>

subsection \<open>Worksheets and the reader\<close>

lemma ws_append_fields [simp]:
  "files (ws_append r st) = files st" "summary_data (ws_append r st) = summary_data st"
  by (simp_all add: ws_append_def)

lemma ws_append_wb [simp]: "wb st \<noteq> [] \<Longrightarrow> wb (ws_append r st) \<noteq> []"
  by (simp add: ws_append_def)

lemma ws_append_rows [simp]: "wb st \<noteq> [] \<Longrightarrow> ws_rows (ws_append r st) = ws_rows st @ [r]"
  by (simp add: ws_append_def ws_rows_def)

lemma ws_append_others [simp]:
  "butlast (wb (ws_append r st)) = butlast (wb st)"
  "fst (last (wb (ws_append r st))) = fst (last (wb st))"
  by (simp_all add: ws_append_def)

lemma fold_ws_append:
  "wb st \<noteq> [] \<Longrightarrow>
     wb (fold (\<lambda>r. ws_append (f r)) rs st) \<noteq> [] \<and>
     ws_rows (fold (\<lambda>r. ws_append (f r)) rs st) = ws_rows st @ map f rs \<and>
     files (fold (\<lambda>r. ws_append (f r)) rs st) = files st \<and>
     summary_data (fold (\<lambda>r. ws_append (f r)) rs st) = summary_data st \<and>
     butlast (wb (fold (\<lambda>r. ws_append (f r)) rs st)) = butlast (wb st) \<and>
     fst (last (wb (fold (\<lambda>r. ws_append (f r)) rs st))) = fst (last (wb st))"
  by (induction rs arbitrary: st) auto

lemma fold_ws_append_empty:
  "wb st = [] \<Longrightarrow> fold (\<lambda>r. ws_append (f r)) rs st = st"
  by (induction rs arbitrary: st) (auto simp: ws_append_def)

lemma read_file_local:
  "fs p = fs' p \<Longrightarrow>
     read_file_with_multiple_encodings rt fs p encs = read_file_with_multiple_encodings rt fs' p encs"
  by (induction encs) (auto split: option.splits)

lemma read_file_find:
  "fs p = Some bs \<Longrightarrow>
     read_file_with_multiple_encodings rt fs p encs =
       (case find (\<lambda>e. read_text (decode rt e) bs \<noteq> None) encs of
          None \<Rightarrow> Inl TypeError
        | Some e \<Rightarrow> Inr (the (read_text (decode rt e) bs)))"
  by (induction encs) (auto split: option.splits)

lemma read_file_exists:
  "read_file_with_multiple_encodings rt fs p encs = Inr t \<Longrightarrow> fs p \<noteq> None"
  by (cases encs) (auto split: option.splits)

text \<open>
  C5. A file in storage is always read: the text returned is the decoding under the first
  of UTF-8, ISO-8859-1 and Windows-1252 that decodes the bytes, and the reader raises
  \<^verbatim>\<open>UnicodeDecodeError\<close> exactly when all three fail. ISO-8859-1 decodes every byte
  sequence, so the three never all fail and the error is never raised.
\<close>

theorem reader_first_candidate:
  assumes "fs p = Some bs"
  shows "(\<exists>t. read_file_with_multiple_encodings rt fs p default_encodings = Inr t) \<and>
         (\<forall>e t. find (\<lambda>e. read_text (decode rt e) bs \<noteq> None) default_encodings = Some e \<and>
                 read_text (decode rt e) bs = Some t \<longrightarrow>
                 read_file_with_multiple_encodings rt fs p default_encodings = Inr t) \<and>
         (read_file_with_multiple_encodings rt fs p default_encodings = Inl UnicodeDecodeError \<longleftrightarrow>
            (\<forall>e \<in> set default_encodings. read_text (decode rt e) bs = None))"
proof -
  have latin: "read_text (decode rt ISO_8859_1) bs \<noteq> None"
    by (simp add: read_text_def iso_8859_1_def)
  have found: "find (\<lambda>e. read_text (decode rt e) bs \<noteq> None) default_encodings \<noteq> None"
    using latin by (simp add: default_encodings_def)
  show ?thesis
    using found latin read_file_find [of fs p bs rt default_encodings] assms
    by (auto simp: default_encodings_def split: option.splits)
qed

theorem reader_first_candidate_witness:
  "[''f'' \<mapsto> [0x41, 0xFF]] ''f'' = Some [0x41, 0xFF :: byte] \<and>
   read_file_with_multiple_encodings rt0 [''f'' \<mapsto> [0x41, 0xFF]] ''f'' default_encodings =
     Inr [CHR 0x41, CHR 0xFF]"
proof -
  have "read_text (decode rt0 UTF_8) [0x41, 0xFF] = None"
    by code_simp
  moreover have "read_text (decode rt0 ISO_8859_1) [0x41, 0xFF] = Some [CHR 0x41, CHR 0xFF]"
    by code_simp
  ultimately show ?thesis
    using reader_first_candidate [of "[''f'' \<mapsto> [0x41, 0xFF]]" "''f''" "[0x41, 0xFF]" rt0]
    by (simp add: default_encodings_def)
qed

subsection \<open>The rows of a syslog file\<close>



lemma os_remove_present:
  "files st p \<noteq> None \<Longrightarrow> os_remove p st = Inr (st\<lparr>files := (files st)(p := None)\<rparr>)"
  by (simp add: os_remove_def)

lemma log_events_present: "log_events rt fs p = Some events \<Longrightarrow> fs p \<noteq> None"
  by (auto simp: log_events_def split: sum.splits dest: read_file_exists)

lemma html_events_present: "html_events rt fs p = Some events \<Longrightarrow> fs p \<noteq> None"
  by (auto simp: html_events_def split: sum.splits dest: read_file_exists)

lemma log_try_events:
  assumes "log_events rt (files st) p = Some events"
  shows "log_try rt i p st =
    (if events = [] then st
     else (fold (\<lambda>r. ws_append (map S r)) (sort_values 3 (map ((#) (log_system_name p)) events)) st)
            \<lparr>summary_data := summary_data st @ [[I (int i), S (basename p), S (log_system_name p)]]\<rparr>)"
proof (cases "wb st = []")
  case True
  then show ?thesis using assms
    by (auto simp: log_try_def log_events_def Let_def fold_ws_append_empty split: sum.splits)
next
  case False
  then show ?thesis using assms fold_ws_append [OF False, of "map S"]
    by (auto simp: log_try_def log_events_def Let_def split: sum.splits)
qed




subsection \<open>Files without events\<close>

lemma html_try_no_events:
  "html_events rt (files st) p = Some [] \<Longrightarrow> html_try rt i p st = st"
  by (auto simp: html_try_def html_events_def Let_def split: sum.splits)

lemma log_try_no_events:
  "log_events rt (files st) p = Some [] \<Longrightarrow> log_try rt i p st = st"
  by (simp add: log_try_events)

lemma html_file_no_events:
  "html_events rt (files st) p = Some [] \<Longrightarrow>
     process_html_file rt (i, p) st = Inr (st\<lparr>files := (files st)(p := None)\<rparr>)"
  by (simp add: process_html_file_def html_try_no_events os_remove_present html_events_present)

lemma log_file_no_events:
  "log_events rt (files st) p = Some [] \<Longrightarrow>
     process_log_file rt (i, p) st = Inr (st\<lparr>files := (files st)(p := None)\<rparr>)"
  by (simp add: process_log_file_def log_try_no_events os_remove_present log_events_present)

lemma html_events_local: "fs p = fs' p \<Longrightarrow> html_events rt fs p = html_events rt fs' p"
  by (simp add: html_events_def read_file_local [of fs p fs'])

lemma log_events_local: "fs p = fs' p \<Longrightarrow> log_events rt fs p = log_events rt fs' p"
  by (simp add: log_events_def read_file_local [of fs p fs'])

lemma html_batch_no_events:
  "distinct ps \<Longrightarrow> \<forall>p \<in> set ps. html_events rt (files st) p = Some [] \<Longrightarrow>
     for_each (process_html_file rt) (enumerate n ps) st =
       Inr (st\<lparr>files := files st |` (- set ps)\<rparr>)"
proof (induction ps arbitrary: n st)
  case Nil
  then show ?case by simp
next
  case (Cons p ps)
  let ?st1 = "st\<lparr>files := (files st)(p := None)\<rparr>"
  have d: "distinct ps" "p \<notin> set ps"
    using Cons.prems by auto
  have "html_events rt (files ?st1) q = html_events rt (files st) q" if "q \<in> set ps" for q
    using that d by (intro html_events_local) auto
  then have ev: "\<forall>q \<in> set ps. html_events rt (files ?st1) q = Some []"
    using Cons.prems by simp
  have step: "process_html_file rt (n, p) st = Inr ?st1"
    using Cons.prems by (simp add: html_file_no_events)
  have rest: "for_each (process_html_file rt) (enumerate (Suc n) ps) ?st1 =
      Inr (?st1\<lparr>files := files ?st1 |` (- set ps)\<rparr>)"
    by (rule Cons.IH [OF d(1) ev])
  have eq: "files ?st1 |` (- set ps) = files st |` (- set (p # ps))"
    by (auto simp: restrict_map_def fun_eq_iff)
  show ?case
    using step rest eq by simp
qed

lemma log_batch_no_events:
  "distinct ps \<Longrightarrow> \<forall>p \<in> set ps. log_events rt (files st) p = Some [] \<Longrightarrow>
     for_each (process_log_file rt) (enumerate n ps) st =
       Inr (st\<lparr>files := files st |` (- set ps)\<rparr>)"
proof (induction ps arbitrary: n st)
  case Nil
  then show ?case by simp
next
  case (Cons p ps)
  let ?st1 = "st\<lparr>files := (files st)(p := None)\<rparr>"
  have d: "distinct ps" "p \<notin> set ps"
    using Cons.prems by auto
  have "log_events rt (files ?st1) q = log_events rt (files st) q" if "q \<in> set ps" for q
    using that d by (intro log_events_local) auto
  then have ev: "\<forall>q \<in> set ps. log_events rt (files ?st1) q = Some []"
    using Cons.prems by simp
  have step: "process_log_file rt (n, p) st = Inr ?st1"
    using Cons.prems by (simp add: log_file_no_events)
  have rest: "for_each (process_log_file rt) (enumerate (Suc n) ps) ?st1 =
      Inr (?st1\<lparr>files := files ?st1 |` (- set ps)\<rparr>)"
    by (rule Cons.IH [OF d(1) ev])
  have eq: "files ?st1 |` (- set ps) = files st |` (- set (p # ps))"
    by (auto simp: restrict_map_def fun_eq_iff)
  show ?case
    using step rest eq by simp
qed

text \<open>
  C6. A file of HTML events or of syslog text in which the pattern finds nothing is
  removed from storage and adds no row and no summary entry; when every file of a batch is
  such a file, the sheet holds the header row only and the summary is as it was.
\<close>

theorem no_events_no_rows:
  "(html_events rt (files st) p = Some [] \<longrightarrow>
      process_html_file rt (i, p) st = Inr (st\<lparr>files := (files st)(p := None)\<rparr>)) \<and>
   (log_events rt (files st) p = Some [] \<longrightarrow>
      process_log_file rt (i, p) st = Inr (st\<lparr>files := (files st)(p := None)\<rparr>)) \<and>
   (distinct ps \<and> (\<forall>p \<in> set ps. html_events rt (files st) p = Some []) \<longrightarrow>
      process_html_files rt ps st =
        Inr (st\<lparr>files := files st |` (- set ps),
                 wb := wb st @ [(''Output_event_log'', [html_header])]\<rparr>)) \<and>
   (distinct ps \<and> (\<forall>p \<in> set ps. log_events rt (files st) p = Some []) \<longrightarrow>
      process_log_files rt ps st =
        Inr (st\<lparr>files := files st |` (- set ps),
                 wb := wb st @ [(''Syslog'', [log_header])]\<rparr>))"
proof (intro conjI impI)
  assume "html_events rt (files st) p = Some []"
  then show "process_html_file rt (i, p) st = Inr (st\<lparr>files := (files st)(p := None)\<rparr>)"
    by (rule html_file_no_events)
next
  assume "log_events rt (files st) p = Some []"
  then show "process_log_file rt (i, p) st = Inr (st\<lparr>files := (files st)(p := None)\<rparr>)"
    by (rule log_file_no_events)
next
  assume a: "distinct ps \<and> (\<forall>p \<in> set ps. html_events rt (files st) p = Some [])"
  let ?st1 = "ws_append html_header (create_sheet ''Output_event_log'' st)"
  have st1: "?st1 = st\<lparr>wb := wb st @ [(''Output_event_log'', [html_header])]\<rparr>"
    by (simp add: ws_append_def create_sheet_def)
  show "process_html_files rt ps st =
        Inr (st\<lparr>files := files st |` (- set ps),
                 wb := wb st @ [(''Output_event_log'', [html_header])]\<rparr>)"
    using a html_batch_no_events [of ps rt "st\<lparr>wb := wb st @ [(''Output_event_log'', [html_header])]\<rparr>" 1]
    by (simp add: process_html_files_def st1)
next
  assume a: "distinct ps \<and> (\<forall>p \<in> set ps. log_events rt (files st) p = Some [])"
  let ?st1 = "ws_append log_header (create_sheet ''Syslog'' st)"
  have st1: "?st1 = st\<lparr>wb := wb st @ [(''Syslog'', [log_header])]\<rparr>"
    by (simp add: ws_append_def create_sheet_def)
  show "process_log_files rt ps st =
        Inr (st\<lparr>files := files st |` (- set ps),
                 wb := wb st @ [(''Syslog'', [log_header])]\<rparr>)"
    using a log_batch_no_events [of ps rt "st\<lparr>wb := wb st @ [(''Syslog'', [log_header])]\<rparr>" 1]
    by (simp add: process_log_files_def st1)
qed

theorem no_events_no_rows_witness:
  "html_events rt0 (files (storage ''/tmp/note.txt'' ''nothing here'')) ''/tmp/note.txt'' = Some [] \<and>
   log_events rt0 (files (storage ''/tmp/note.txt'' ''nothing here'')) ''/tmp/note.txt'' = Some [] \<and>
   process_html_file rt0 (1, ''/tmp/note.txt'') (storage ''/tmp/note.txt'' ''nothing here'') =
     Inr ((storage ''/tmp/note.txt'' ''nothing here'')
            \<lparr>files := (files (storage ''/tmp/note.txt'' ''nothing here''))(''/tmp/note.txt'' := None)\<rparr>) \<and>
   process_html_files rt0 [''/tmp/note.txt''] (storage ''/tmp/note.txt'' ''nothing here'') =
     Inr ((storage ''/tmp/note.txt'' ''nothing here'')
            \<lparr>files := files (storage ''/tmp/note.txt'' ''nothing here'') |` (- set [''/tmp/note.txt'']),
              wb := wb (storage ''/tmp/note.txt'' ''nothing here'') @
                    [(''Output_event_log'', [html_header])]\<rparr>) \<and>
   process_log_files rt0 [''/tmp/note.txt''] (storage ''/tmp/note.txt'' ''nothing here'') =
     Inr ((storage ''/tmp/note.txt'' ''nothing here'')
            \<lparr>files := files (storage ''/tmp/note.txt'' ''nothing here'') |` (- set [''/tmp/note.txt'']),
              wb := wb (storage ''/tmp/note.txt'' ''nothing here'') @ [(''Syslog'', [log_header])]\<rparr>)"
proof -
  have h1: "html_events rt0 (files (storage ''/tmp/note.txt'' ''nothing here'')) ''/tmp/note.txt'' = Some []"
    by code_simp
  have h2: "log_events rt0 (files (storage ''/tmp/note.txt'' ''nothing here'')) ''/tmp/note.txt'' = Some []"
    by code_simp
  show ?thesis
    using no_events_no_rows [of rt0 "storage ''/tmp/note.txt'' ''nothing here''" "''/tmp/note.txt''" 1
        "[''/tmp/note.txt'']"] h1 h2
    by simp
qed

subsection \<open>The pages of the equipment table\<close>

lemma columns_per_sheet_pos: "0 < columns_per_sheet"
  by (simp add: columns_per_sheet_def)

lemma ws_append_last:
  "wb st = w @ [(t, rs)] \<Longrightarrow> ws_append r st = st\<lparr>wb := w @ [(t, rs @ [r])]\<rparr>"
  by (simp add: ws_append_def)

lemma add_rows_fit:
  "length rows + rc \<le> columns_per_sheet \<Longrightarrow> wb st = w @ [(t, rs)] \<Longrightarrow>
     add_rows rows (st, rc) = (st\<lparr>wb := w @ [(t, rs @ rows)]\<rparr>, rc + length rows)"
proof (induction rows arbitrary: st rc rs)
  case Nil
  then show ?case by simp
next
  case (Cons row rows)
  have "add_rows rows (st\<lparr>wb := w @ [(t, rs @ [row])]\<rparr>, Suc rc) =
      (st\<lparr>wb := w @ [(t, (rs @ [row]) @ rows)]\<rparr>, Suc rc + length rows)"
    using Cons.IH [of "Suc rc" "st\<lparr>wb := w @ [(t, rs @ [row])]\<rparr>" "rs @ [row]"] Cons.prems
    by simp
  then show ?case
    using Cons.prems by (simp add: ws_append_last [of st w t rs])
qed

lemma add_data_fresh:
  assumes "length rows \<le> columns_per_sheet" and "wb st = w @ [(t, [])]"
  shows "add_data_to_sheet cols rows (st, 0) =
           (st\<lparr>wb := w @ [(t, map S cols # rows)]\<rparr>, length rows)"
  using assms add_rows_fit [of rows 0 "st\<lparr>wb := w @ [(t, [map S cols])]\<rparr>" w t "[map S cols]"]
  by (simp add: add_data_to_sheet_def ws_append_last [of st w t "[]"])

lemma take_min_length: "take (min n (length xs)) xs = take n xs"
  by (simp add: min_def)

lemma drop_min_length: "drop (min n (length xs)) xs = drop n xs"
  by (simp add: min_def)

lemma paging_fresh_sheet:
  assumes "df \<noteq> []" and "wb st = w @ [(t, [])]"
  shows "paging cols df (st, 0) =
           paging cols (drop columns_per_sheet df)
             (st\<lparr>wb := w @ [(t, map S cols # take columns_per_sheet df)]\<rparr>,
              min columns_per_sheet (length df))"
proof -
  have n: "next_sheet (st, 0) = (st, 0)"
    using columns_per_sheet_pos by (simp add: next_sheet_def)
  have k: "split_index df (st, 0) = min columns_per_sheet (length df)"
    by (simp add: split_index_def n)
  have "add_data_to_sheet cols (take columns_per_sheet df) (st, 0) =
      (st\<lparr>wb := w @ [(t, map S cols # take columns_per_sheet df)]\<rparr>,
       length (take columns_per_sheet df))"
    using assms(2) by (intro add_data_fresh) simp_all
  then show ?thesis
    using assms(1)
    by (subst paging.simps) (simp add: n k take_min_length drop_min_length min.commute)
qed


lemma paging_nil: "paging cols [] p = p"
  by (subst paging.simps) simp


subsection \<open>Date and time in every record\<close>

lemma keys_setitem: "fst ` set (setitem k v d) = insert k (fst ` set d)"
  by (induction d) auto

lemma keys_update: "fst ` set (update item data) = fst ` set item \<union> fst ` set data"
  unfolding update_def by (induction data arbitrary: item) (auto simp: keys_setitem)

lemma keys_pop: "fst ` set (snd (pop k v d)) = fst ` set d - {k}"
  by (auto simp: pop_def map_of_eq_None_iff split: option.splits)

lemma has_date_time_setitem:
  "has_date_time (setitem ''Time'' t (setitem ''Date'' d data))"
  by (simp add: has_date_time_def keys_setitem)

lemma has_date_time_pop: "has_date_time d \<Longrightarrow> has_date_time (snd (pop ''items'' v d))"
  by (simp add: has_date_time_def keys_pop)

lemma has_date_time_update: "has_date_time data \<Longrightarrow> has_date_time (update item data)"
  by (simp add: has_date_time_def keys_update)



lemma equipment_line_dated:
  "equipment_line rt line json_list = Inr out \<Longrightarrow> \<forall>d \<in> set json_list. has_date_time d \<Longrightarrow>
     \<forall>d \<in> set out. has_date_time d"
  by (auto simp: equipment_line_def has_date_time_setitem
      split: if_splits option.splits list.splits json.splits)

lemma equipment_lines_dated:
  "equipment_lines rt ls json_list = Inr out \<Longrightarrow> \<forall>d \<in> set json_list. has_date_time d \<Longrightarrow>
     \<forall>d \<in> set out. has_date_time d"
proof (induction ls arbitrary: json_list)
  case Nil
  then show ?case by simp
next
  case (Cons line ls)
  then show ?case
    by (auto split: sum.splits dest!: equipment_line_dated)
qed

lemma link_items_dated:
  "link_items items data all_items = Inr out \<Longrightarrow> has_date_time data \<Longrightarrow>
     \<forall>d \<in> set all_items. has_date_time d \<Longrightarrow> \<forall>d \<in> set out. has_date_time d"
  by (induction items data all_items rule: link_items.induct)
    (auto simp: has_date_time_update)


lemma equipment_data_dated:
  "equipment_data rt json_data all_items = Inr out \<Longrightarrow> \<forall>d \<in> set json_data. has_date_time d \<Longrightarrow>
     \<forall>d \<in> set all_items. has_date_time d \<Longrightarrow> \<forall>d \<in> set out. has_date_time d"
proof (induction json_data arbitrary: all_items)
  case Nil
  then show ?case by simp
next
  case (Cons data json_data)
  show ?case
  proof (cases "truthy (fst (pop ''items'' (JArr []) data))")
    case True
    with Cons.prems(1) obtain flat_items mid where
      mid: "link_items flat_items (snd (pop ''items'' (JArr []) data)) all_items = Inr mid"
      and rest: "equipment_data rt json_data mid = Inr out"
      by (auto split: sum.splits)
    have "\<forall>d \<in> set mid. has_date_time d"
      using link_items_dated [OF mid] Cons.prems(2,3) by (simp add: has_date_time_pop)
    then show ?thesis
      using Cons.IH [OF rest] Cons.prems(2) by simp
  next
    case False
    then show ?thesis
      using Cons.IH [of all_items] Cons.prems by simp
  qed
qed


lemma equipment_files_dated:
  "equipment_files rt fs ps all_items = Inr out \<Longrightarrow> \<forall>d \<in> set all_items. has_date_time d \<Longrightarrow>
     \<forall>d \<in> set out. has_date_time d"
proof (induction ps arbitrary: all_items)
  case Nil
  then show ?case by simp
next
  case (Cons p ps)
  from Cons.prems(1) obtain json_data mid where
    jd: "extract_equipment_data rt fs p = Inr json_data"
    and mid: "equipment_data rt json_data all_items = Inr mid"
    and rest: "equipment_files rt fs ps mid = Inr out"
    by (auto split: sum.splits)
  have "\<forall>d \<in> set json_data. has_date_time d"
    using jd equipment_lines_dated [of rt _ "[]" json_data]
    by (auto simp: extract_equipment_data_def split: sum.splits)
  then have "\<forall>d \<in> set mid. has_date_time d"
    using equipment_data_dated [OF mid] Cons.prems(2) by simp
  then show ?case
    using Cons.IH [OF rest] by simp
qed

lemma set_add_keys: "set (add_keys d cols) = set cols \<union> fst ` set d"
  unfolding add_keys_def by (induction d arbitrary: cols) auto

lemma set_fold_add_keys:
  "set (fold add_keys all_items cols) = set cols \<union> (\<Union>d \<in> set all_items. fst ` set d)"
  by (induction all_items arbitrary: cols) (auto simp: set_add_keys)

lemma reorder_dated:
  assumes "all_items \<noteq> []" and "\<forall>d \<in> set all_items. has_date_time d"
  shows "reorder all_items =
           Inr (columns_order (columns all_items),
                map (frame_row (columns_order (columns all_items))) all_items)"
proof -
  obtain d where "d \<in> set all_items" "has_date_time d"
    using assms by (cases all_items) auto
  then have "''Date'' \<in> set (columns all_items)" "''Time'' \<in> set (columns all_items)"
    by (auto simp: columns_def set_fold_add_keys has_date_time_def)
  then show ?thesis
    by (simp add: reorder_def Let_def)
qed

subsection \<open>The summary of a batch of JSON lines\<close>









subsection \<open>Three sheets for the equipment records\<close>






subsection \<open>The fields of the payload in its records\<close>

lemma map_of_setitem: "map_of (setitem k v d) = (map_of d)(k \<mapsto> v)"
  by (induction d) (auto simp: fun_eq_iff)









subsection \<open>The time of an equipment payload\<close>

lemma split_no_sep: "sep \<notin> set s \<Longrightarrow> split sep s = [s]"
  by (induction s) auto

lemma split_at_sep: "sep \<notin> set a \<Longrightarrow> split sep (a @ sep # b) = a # split sep b"
  by (induction a) auto

lemma split_nonempty: "split sep s \<noteq> []"
  by (induction s) (auto split: list.splits)

lemma hd_split: "hd (split sep s) = takeWhile (\<lambda>c. c \<noteq> sep) s"
  by (induction s) (auto simp: split_nonempty split: list.splits)

text \<open>
  C4, as amended. For a line that holds a JSON payload: a payload without
  \<^verbatim>\<open>messageSendTime\<close> is not extracted, the list of records stays as it was; a payload
  whose \<^verbatim>\<open>messageSendTime\<close> is a text with exactly one \<^verbatim>\<open>T\<close> is extracted with
  \<^verbatim>\<open>Date\<close> the part before the \<^verbatim>\<open>T\<close> and \<^verbatim>\<open>Time\<close> the part after it, cut at
  the first \<^verbatim>\<open>+\<close> and then at the first dot, its other fields unchanged.
\<close>

theorem equipment_timestamp:
  assumes "search json_pattern line \<noteq> None" and "loads rt (from_brace line) = Some data"
  shows "(map_of data ''messageSendTime'' = None \<longrightarrow>
           equipment_line rt line json_list = Inr json_list) \<and>
         (CHR ''T'' \<notin> set date \<and> CHR ''T'' \<notin> set time \<and>
          map_of data ''messageSendTime'' = Some (JStr (date @ ''T'' @ time)) \<longrightarrow>
           (\<exists>r. equipment_line rt line json_list = Inr (json_list @ [r]) \<and>
                map_of r ''Date'' = Some (JStr date) \<and>
                map_of r ''Time'' =
                  Some (JStr (takeWhile (\<lambda>c. c \<noteq> CHR ''.'') (takeWhile (\<lambda>c. c \<noteq> CHR ''+'') time))) \<and>
                (\<forall>k. k \<noteq> ''Date'' \<and> k \<noteq> ''Time'' \<longrightarrow> map_of r k = map_of data k)))"
proof (intro conjI impI)
  assume "map_of data ''messageSendTime'' = None"
  then show "equipment_line rt line json_list = Inr json_list"
    using assms by (simp add: equipment_line_def)
next
  assume a: "CHR ''T'' \<notin> set date \<and> CHR ''T'' \<notin> set time \<and>
          map_of data ''messageSendTime'' = Some (JStr (date @ ''T'' @ time))"
  then have s: "split (CHR ''T'') (date @ ''T'' @ time) = [date, time]"
    by (simp add: split_at_sep split_no_sep)
  let ?r = "setitem ''Time'' (JStr (hd (split (CHR ''.'') (hd (split (CHR ''+'') time)))))
              (setitem ''Date'' (JStr date) data)"
  have "equipment_line rt line json_list = Inr (json_list @ [?r])"
    using assms a s by (simp add: equipment_line_def)
  then show "\<exists>r. equipment_line rt line json_list = Inr (json_list @ [r]) \<and>
                map_of r ''Date'' = Some (JStr date) \<and>
                map_of r ''Time'' =
                  Some (JStr (takeWhile (\<lambda>c. c \<noteq> CHR ''.'') (takeWhile (\<lambda>c. c \<noteq> CHR ''+'') time))) \<and>
                (\<forall>k. k \<noteq> ''Date'' \<and> k \<noteq> ''Time'' \<longrightarrow> map_of r k = map_of data k)"
    by (intro exI [of _ ?r]) (simp add: map_of_setitem hd_split)
qed

theorem equipment_timestamp_witness:
  "search json_pattern equipment_text \<noteq> None \<and>
   loads rt0 (from_brace equipment_text) = Some equipment_payload \<and>
   (\<exists>r. equipment_line rt0 equipment_text [] = Inr [r] \<and>
        map_of r ''Date'' = Some (JStr ''2024-01-01'') \<and>
        map_of r ''Time'' = Some (JStr ''10:00:00''))"
proof -
  have s: "search json_pattern equipment_text \<noteq> None"
    by code_simp
  have l: "loads rt0 (from_brace equipment_text) = Some equipment_payload"
    by code_simp
  have m: "map_of equipment_payload ''messageSendTime'' =
      Some (JStr (''2024-01-01'' @ ''T'' @ ''10:00:00.123+07:00''))"
    by code_simp
  show ?thesis
    using equipment_timestamp [OF s l, where date = "''2024-01-01''" and
        time = "''10:00:00.123+07:00''" and json_list = "[]"] s l m
    by auto
qed

text \<open>The claim as it stands fails: a payload that parses and has no
  \<^verbatim>\<open>messageSendTime\<close> gives no record.\<close>

theorem payload_without_send_time_dropped:
  "loads rt0 (from_brace untimed_text) = Some untimed_payload \<and>
   map_of untimed_payload ''messageSendTime'' = None \<and>
   extract_equipment_data rt0 (files (storage ''/tmp/equipment_a.log'' untimed_text))
     ''/tmp/equipment_a.log'' = Inr []"
  by code_simp

subsection \<open>Evaluations\<close>

text \<open>
  C3. A line that matches the pattern and ends in a \<^verbatim>\<open>-Traceback=\<close> suffix: the suffix
  stays in the message text and the traceback is empty.
\<close>

theorem traceback_suffix_left_in_message:
  "outcome ''/tmp/sys_RTR1.txt''
     (process_log_files rt0 [''/tmp/sys_RTR1.txt''] (storage ''/tmp/sys_RTR1.txt'' log_example)) =
   Inr ([(''Syslog'',
          [log_header,
           map S [''RTR1'', ''Mar'', ''1'', ''00:00:01.123'', ''SYS'', ''2'', ''MALLOCFAIL'',
                  ''Memory failed -Traceback= 0x1 0x2'', []]])],
        [[I 1, S ''sys_RTR1.txt'', S ''RTR1'']], False)"
  by code_simp

text \<open>
  C1. A file with the event rows 12 and 3, in this order: the sheet gets the row of entry 12
  before the row of entry 3, since the entry ids are sorted as text.
\<close>

theorem html_entry_ids_sorted_as_text:
  "outcome ''/tmp/a.html''
     (process_html_files rt0 [''/tmp/a.html''] (storage ''/tmp/a.html'' html_example)) =
   Inr ([(''Output_event_log'',
          [html_header,
           map S [''10.0.0.1'', ''RTR-1'', ''12'', ''01.02.03'', ''04:05:06'', ''E1'', ''C2'', ''T3'',
                  ''F4'', ''7'', ''P8''],
           map S [''10.0.0.1'', ''RTR-1'', ''3'', ''01.02.03'', ''04:05:07'', ''E'', ''C'', ''T'',
                  ''F'', ''9'', ''Q'']])],
        [[I 1, S ''a.html'', S ''10.0.0.1'', S ''RTR-1'']], False)"
  by code_simp

lemma paging_one_sheet:
  assumes "df \<noteq> []" and "length df \<le> columns_per_sheet" and "wb st = w @ [(t, [])]"
  shows "paging cols df (st, 0) = (st\<lparr>wb := w @ [(t, map S cols # df)]\<rparr>, length df)"
  using assms paging_fresh_sheet [OF assms(1,3), of cols] by (simp add: paging_nil)

lemma equipment_one_sheet:
  assumes "equipment_files rt (files st) ps [] = Inr all_items" and "all_items \<noteq> []"
    and "length all_items \<le> columns_per_sheet"
  shows "process_equipment_files rt ps st =
           Inr (st\<lparr>wb := wb st @
                  [(''equipment_status'',
                    map S (columns_order (columns all_items)) #
                    map (frame_row (columns_order (columns all_items))) all_items)],
                 summary_data := summary_data st @
                  [[I (int (length ps)), S (basename (last ps))]]\<rparr>)"
proof -
  let ?st1 = "create_sheet ''equipment_status'' st"
  let ?cols = "columns_order (columns all_items)"
  let ?df = "map (frame_row ?cols) all_items"
  have ps: "ps \<noteq> []"
    using assms by auto
  have st1: "files ?st1 = files st"
    by (simp add: create_sheet_def)
  have "\<forall>d \<in> set all_items. has_date_time d"
    using equipment_files_dated [OF assms(1)] by simp
  then have r: "reorder all_items = Inr (?cols, ?df)"
    using assms(2) by (rule reorder_dated [rotated])
  have "paging ?cols ?df (?st1, 0) =
      (?st1\<lparr>wb := wb st @ [(''equipment_status'', map S ?cols # ?df)]\<rparr>, length ?df)"
    using assms(2,3) by (intro paging_one_sheet) (simp_all add: create_sheet_def)
  then show ?thesis
    using assms ps r st1 by (simp add: process_equipment_files_def Let_def create_sheet_def)
qed

text \<open>
  C2. After a batch of one link-status file and after a batch of one equipment-status file
  the file is still in storage: neither function removes what it has read.
\<close>

theorem json_files_left_in_storage:
  "outcome ''/tmp/link_a.log''
     (process_link_files rt0 [''/tmp/link_a.log''] (storage ''/tmp/link_a.log'' link_text)) =
   Inr ([(''link_status_jms'',
          [map S [''Date'', ''Time'', ''a'', ''node''],
           [V (JStr ''2024-01-01''), V (JStr ''10:00:00''), V (JInt 1), V (JStr ''X'')],
           [V (JStr ''2024-01-01''), V (JStr ''10:00:00''), V (JInt 2), V (JStr ''X'')]])],
        [[I 1, S ''link_a.log'']], True) \<and>
   outcome ''/tmp/equipment_a.log''
     (process_equipment_files rt0 [''/tmp/equipment_a.log'']
        (storage ''/tmp/equipment_a.log'' equipment_text)) =
   Inr ([(''equipment_status'',
          [map S [''Date'', ''Time'', ''id'', ''messageSendTime''],
           [V (JStr ''2024-01-01''), V (JStr ''10:00:00''), V (JInt 1),
            V (JStr ''2024-01-01T10:00:00.123+07:00'')]])],
        [[I 1, S ''equipment_a.log'']], True)"
proof -
  let ?E = "storage ''/tmp/equipment_a.log'' equipment_text"
  let ?rec = "[(''id'', JInt 1), (''messageSendTime'', JStr ''2024-01-01T10:00:00.123+07:00''),
               (''Date'', JStr ''2024-01-01''), (''Time'', JStr ''10:00:00'')]"
  let ?cols = "[''Date'', ''Time'', ''id'', ''messageSendTime'']"
  let ?row = "[V (JStr ''2024-01-01''), V (JStr ''10:00:00''), V (JInt 1),
               V (JStr ''2024-01-01T10:00:00.123+07:00'')]"
  have link: "outcome ''/tmp/link_a.log''
     (process_link_files rt0 [''/tmp/link_a.log''] (storage ''/tmp/link_a.log'' link_text)) =
   Inr ([(''link_status_jms'',
          [map S [''Date'', ''Time'', ''a'', ''node''],
           [V (JStr ''2024-01-01''), V (JStr ''10:00:00''), V (JInt 1), V (JStr ''X'')],
           [V (JStr ''2024-01-01''), V (JStr ''10:00:00''), V (JInt 2), V (JStr ''X'')]])],
        [[I 1, S ''link_a.log'']], True)"
    by code_simp
  have items: "equipment_files rt0 (files ?E) [''/tmp/equipment_a.log''] [] = Inr [?rec]"
    by code_simp
  have cols: "columns_order (columns [?rec]) = ?cols"
    by code_simp
  have row: "frame_row ?cols ?rec = ?row"
    by code_simp
  have name: "basename ''/tmp/equipment_a.log'' = ''equipment_a.log''"
    by code_simp
  have "process_equipment_files rt0 [''/tmp/equipment_a.log''] ?E =
      Inr (?E\<lparr>wb := wb ?E @ [(''equipment_status'', map S ?cols # [?row])],
              summary_data := summary_data ?E @ [[I 1, S ''equipment_a.log'']]\<rparr>)"
    using equipment_one_sheet [OF items] by (simp add: cols row name columns_per_sheet_def)
  then have "outcome ''/tmp/equipment_a.log''
     (process_equipment_files rt0 [''/tmp/equipment_a.log''] ?E) =
   Inr ([(''equipment_status'', [map S ?cols, ?row])], [[I 1, S ''equipment_a.log'']], True)"
    by (simp add: outcome_def storage_def)
  then show ?thesis
    using link by simp
qed

end
